theory Spec2Isabelle
  imports Main
begin

section \<open>JavaScript values, headers, requests\<close>

text \<open>
  Values that reach the code at run time. The TypeScript annotation
  \<^verbatim>\<open>Theme = 'light' | 'dark' | null\<close> is erased when the program runs, so what a cookie
  parser or a form field hands over is an arbitrary value: \<open>Null\<close>, \<open>Undefined\<close>, a
  string, a boolean, or anything else (a number, an object, an array, a file), which is
  carried here with its string conversion, the only thing the code ever asks of it.
\<close>

datatype jsval = Null | Undefined | Str string | Bool bool | Other string

text \<open>The operator \<^verbatim>\<open>a ?? b\<close>: \<open>b\<close> when \<open>a\<close> is \<^verbatim>\<open>null\<close> or \<^verbatim>\<open>undefined\<close>, else \<open>a\<close>.\<close>

fun nullish :: "jsval \<Rightarrow> bool" where
  "nullish Null = True"
| "nullish Undefined = True"
| "nullish _ = False"

definition coalesce :: "jsval \<Rightarrow> jsval \<Rightarrow> jsval" where
  "coalesce a b = (if nullish a then b else a)"

text \<open>
  The \<^verbatim>\<open>Headers\<close> class: a list of name and value pairs, \<^verbatim>\<open>append\<close> adds at the end,
  \<^verbatim>\<open>get\<close> returns \<^verbatim>\<open>null\<close> for a name that does not occur and the values of the name
  joined by a comma and a space otherwise. Names are compared as the code spells them.
\<close>

type_synonym Headers = "(string \<times> string) list"

definition new_Headers :: Headers where
  "new_Headers = []"

definition append_Headers :: "Headers \<Rightarrow> string \<Rightarrow> string \<Rightarrow> Headers" where
  "append_Headers hs name val = hs @ [(name, val)]"

fun join_values :: "string list \<Rightarrow> string" where
  "join_values [] = []"
| "join_values [v] = v"
| "join_values (v # w # vs) = v @ '', '' @ join_values (w # vs)"

definition get_Headers :: "Headers \<Rightarrow> string \<Rightarrow> string option" where
  "get_Headers hs name =
     (case map snd (filter (\<lambda>(n, _). n = name) hs) of
        [] \<Rightarrow> None
      | vs \<Rightarrow> Some (join_values vs))"

text \<open>
  What an awaited call can end with instead of a value: the \<^verbatim>\<open>TypeError\<close> with which
  \<^verbatim>\<open>request.formData()\<close> rejects when the body of the request is not a form, the
  unauthenticated error that the comment in the \<^verbatim>\<open>catch\<close> block of the loader names, a
  redirect response thrown by a helper, or any other error, with its message.
\<close>

datatype thrown = TypeError | Unauthenticated | Redirect string | Failure string

text \<open>
  A submitted form: \<^verbatim>\<open>formData.get(name)\<close> is \<^verbatim>\<open>null\<close> for a field that was not
  submitted.
\<close>

type_synonym FormData = "string \<rightharpoonup> jsval"

definition get_FormData :: "FormData \<Rightarrow> string \<Rightarrow> jsval" where
  "get_FormData fd name = (case fd name of None \<Rightarrow> Null | Some v \<Rightarrow> v)"

text \<open>
  A request, as far as the two routes read it: its headers, and what
  \<^verbatim>\<open>await request.formData()\<close> ends with, the submitted form (\<open>Inr\<close>) or the thrown
  value when the body cannot be read as a form (\<open>Inl\<close>).
\<close>

record request =
  headers :: Headers
  formData :: "thrown + FormData"

text \<open>
  A cookie object of \<^verbatim>\<open>~/services/cookies.server\<close>. That module is outside the
  two files verified here, so the two methods the routes call are parameters: \<open>parse\<close> takes the
  \<^verbatim>\<open>Cookie\<close> header (or \<^verbatim>\<open>null\<close>) to the decoded value, \<open>serialize\<close> takes a value to
  the text of a \<^verbatim>\<open>Set-Cookie\<close> header.
\<close>

record cookie =
  parse :: "string option \<Rightarrow> jsval"
  serialize :: "jsval \<Rightarrow> string"

section \<open>The toggle action: \<^verbatim>\<open>app/routes/user.toggle-theme.tsx\<close>\<close>

text \<open>What \<^verbatim>\<open>data(body, { headers })\<close> returns: the body and the headers of the response.\<close>

record response =
  body :: jsval
  init_headers :: Headers

definition data :: "jsval \<Rightarrow> Headers \<Rightarrow> response" where
  "data b hs = \<lparr>body = b, init_headers = hs\<rparr>"

text \<open>
  The local constants of \<^verbatim>\<open>action\<close>, in the order of the source. The current theme
  is read from the cookie; the system preference is read from the form, once
  \<^verbatim>\<open>request.formData()\<close> has resolved to it.
\<close>

definition currentTheme :: "cookie \<Rightarrow> request \<Rightarrow> jsval" where
  "currentTheme themeCookie r = coalesce (parse themeCookie (get_Headers (headers r) ''Cookie'')) Null"

definition systemPreference :: "FormData \<Rightarrow> jsval" where
  "systemPreference fd = get_FormData fd ''systemPreference''"

definition effectiveTheme :: "cookie \<Rightarrow> request \<Rightarrow> FormData \<Rightarrow> jsval" where
  "effectiveTheme themeCookie r fd =
     coalesce (coalesce (currentTheme themeCookie r) (systemPreference fd)) (Str ''dark'')"

definition newTheme :: "cookie \<Rightarrow> request \<Rightarrow> FormData \<Rightarrow> jsval" where
  "newTheme themeCookie r fd =
     (if effectiveTheme themeCookie r fd = Str ''light'' then Str ''dark'' else Str ''light'')"

text \<open>
  The action: the thrown value (\<open>Inl\<close>) or the response (\<open>Inr\<close>).
  \<^verbatim>\<open>await request.formData()\<close> has no \<^verbatim>\<open>try\<close> around it, so what it rejects with leaves
  the action, and no header is written.
\<close>

definition action :: "cookie \<Rightarrow> request \<Rightarrow> thrown + response" where
  "action themeCookie r =
     (case formData r of
        Inl e \<Rightarrow> Inl e
      | Inr fd \<Rightarrow>
          let hs0 = new_Headers;
              hs1 = append_Headers hs0 ''Cache-Control'' ''no-cache'';
              hs2 = append_Headers hs1 ''Set-Cookie''
                      (serialize themeCookie (newTheme themeCookie r fd))
          in Inr (data Null hs2))"

section \<open>The root route: loader\<close>

text \<open>
  The collaborators that the root route imports. Their modules are outside the two
  files verified here, so each is a parameter of the loader. A call that the loader makes
  returns a value (\<open>Inr\<close>) or throws (\<open>Inl\<close>). \<^verbatim>\<open>fetchRfds\<close> may resolve to a falsy value
  instead of an array (\<open>None\<close>); \<^verbatim>\<open>provideNewRfdNumber\<close> may return \<^verbatim>\<open>undefined\<close>
  (\<open>None\<close>). \<^verbatim>\<open>isLocalMode()\<close> is a flag of the running server.
\<close>

record ('u, 'r, 'a, 'l) services =
  themeCookie :: cookie
  inlineCommentsCookie :: cookie
  authenticate :: "request \<Rightarrow> thrown + 'u"
  logout :: "request \<Rightarrow> string \<Rightarrow> thrown + unit"
  isLocalMode :: bool
  fetchRfds :: "'u \<Rightarrow> thrown + 'r list option"
  getAuthors :: "'r list \<Rightarrow> thrown + 'a list"
  getLabels :: "'r list \<Rightarrow> thrown + 'l list"
  provideNewRfdNumber :: "'r list \<Rightarrow> thrown + int option"

text \<open>The object that the loader returns; \<^verbatim>\<open>newRfdNumber: undefined\<close> is \<open>None\<close>.\<close>

record ('u, 'r, 'a, 'l) loader_data =
  theme :: jsval
  inlineComments :: jsval
  user :: 'u
  rfds :: "'r list"
  authors :: "'a list"
  labels :: "'l list"
  localMode :: bool
  newRfdNumber :: "int option"

text \<open>The calls with an effect outside the loader: \<^verbatim>\<open>logout(request, redirectTo)\<close>.\<close>

datatype effect = CallLogout request string

text \<open>
  The body of the \<^verbatim>\<open>try\<close> block: \<open>Inl\<close> is the value that one of its calls threw, which
  the \<^verbatim>\<open>catch\<close> receives; \<open>Inr\<close> is the object of the \<^verbatim>\<open>return\<close> inside the block.
  \<^verbatim>\<open>(await fetchRfds(user)) || []\<close> replaces a falsy result by the empty array. An array
  is truthy, also when empty, so \<^verbatim>\<open>rfds ? getAuthors(rfds) : []\<close> always calls
  \<^verbatim>\<open>getAuthors\<close>, and likewise for the labels.
\<close>

definition truthy_array :: "'r list \<Rightarrow> bool" where
  "truthy_array xs = True"

definition try_block ::
  "('u, 'r, 'a, 'l) services \<Rightarrow> jsval \<Rightarrow> jsval \<Rightarrow> 'u \<Rightarrow> thrown + ('u, 'r, 'a, 'l) loader_data" where
  "try_block s th ic u =
     (case fetchRfds s u of
        Inl e \<Rightarrow> Inl e
      | Inr fetched \<Rightarrow>
          let rs = (case fetched of None \<Rightarrow> [] | Some xs \<Rightarrow> xs) in
          (case (if truthy_array rs then getAuthors s rs else Inr []) of
             Inl e \<Rightarrow> Inl e
           | Inr as \<Rightarrow>
               (case (if truthy_array rs then getLabels s rs else Inr []) of
                  Inl e \<Rightarrow> Inl e
                | Inr ls \<Rightarrow>
                    (case provideNewRfdNumber s rs of
                       Inl e \<Rightarrow> Inl e
                     | Inr n \<Rightarrow>
                         Inr \<lparr>theme = th, inlineComments = ic, user = u, rfds = rs,
                              authors = as, labels = ls, localMode = isLocalMode s,
                              newRfdNumber = n\<rparr>))))"

text \<open>
  The first two constants of the loader, \<^verbatim>\<open>theme\<close> and \<^verbatim>\<open>inlineComments\<close>, and then
  the loader: the calls to \<^verbatim>\<open>logout\<close> that it made, and what it ended with, a thrown
  value (\<open>Inl\<close>) or the returned object (\<open>Inr\<close>). \<^verbatim>\<open>authenticate\<close> is awaited before the
  \<^verbatim>\<open>try\<close>, so what it throws leaves the loader; the \<^verbatim>\<open>catch\<close> has no binding, so what
  the block threw is dropped; \<^verbatim>\<open>await logout(request, '/')\<close> is inside the \<^verbatim>\<open>catch\<close>
  with no handler around it, and its value is not used.
\<close>

definition loader_theme :: "('u, 'r, 'a, 'l) services \<Rightarrow> request \<Rightarrow> jsval" where
  "loader_theme s r = coalesce (parse (themeCookie s) (get_Headers (headers r) ''Cookie'')) Null"

definition loader_inlineComments :: "('u, 'r, 'a, 'l) services \<Rightarrow> request \<Rightarrow> jsval" where
  "loader_inlineComments s r =
     coalesce (parse (inlineCommentsCookie s) (get_Headers (headers r) ''Cookie'')) (Bool True)"

definition loader ::
  "('u, 'r, 'a, 'l) services \<Rightarrow> request \<Rightarrow> effect list \<times> (thrown + ('u, 'r, 'a, 'l) loader_data)" where
  "loader s r =
     (let th = loader_theme s r;
          ic = loader_inlineComments s r
      in case authenticate s r of
           Inl e \<Rightarrow> ([], Inl e)
         | Inr u \<Rightarrow>
             (case try_block s th ic u of
                Inr d \<Rightarrow> ([], Inr d)
              | Inl _ \<Rightarrow>
                  (case logout s r ''/'' of
                     Inl e \<Rightarrow> ([CallLogout r ''/''], Inl e)
                   | Inr _ \<Rightarrow>
                       ([CallLogout r ''/''],
                        Inr \<lparr>theme = th, inlineComments = ic, user = u, rfds = [],
                             authors = [], labels = [], localMode = isLocalMode s,
                             newRfdNumber = None\<rparr>))))"

section \<open>The root route: the theme script and the page shell\<close>

text \<open>
  A template literal converts an interpolated value to a string. The characters that
  the string syntax here cannot hold next to its own delimiters are named.
\<close>

definition quote :: char where
  "quote = CHR 0x27"

definition newline :: char where
  "newline = CHR 0x0A"

fun toString :: "jsval \<Rightarrow> string" where
  "toString Null = ''null''"
| "toString Undefined = ''undefined''"
| "toString (Str s) = s"
| "toString (Bool b) = (if b then ''true'' else ''false'')"
| "toString (Other s) = s"

text \<open>
  The interpolation in the second line of the script: the text \<^verbatim>\<open>null\<close> for \<^verbatim>\<open>null\<close>,
  and the theme between single quotes otherwise.
\<close>

definition savedTheme_literal :: "jsval \<Rightarrow> string" where
  "savedTheme_literal t = (if t = Null then ''null'' else [quote] @ toString t @ [quote])"

text \<open>The text of the script: the lines of the template literal, each ended by a newline.\<close>

definition themeScript :: "jsval \<Rightarrow> string" where
  \<open>themeScript t = concat (map (\<lambda>l. l @ [newline])
     [[],
      ''(function() {'',
      ''  var savedTheme = '' @ savedTheme_literal t @ '';'',
      ''  var resolvedTheme;'',
      ''  if (savedTheme === null) {'',
      ''    // No saved preference, follow system'',
      ''    resolvedTheme = window.matchMedia('(prefers-color-scheme: light)').matches ? 'light-mode' : 'dark-mode';'',
      ''  } else {'',
      ''    resolvedTheme = savedTheme === 'light' ? 'light-mode' : 'dark-mode';'',
      ''  }'',
      ''  document.documentElement.className = resolvedTheme;'',
      [],
      ''  // Update color-scheme meta tag'',
      ''  var meta = document.querySelector('meta[name="color-scheme"]');'',
      ''  if (meta) meta.content = resolvedTheme === 'light-mode' ? 'light' : 'dark';'',
      ''})();''])\<close>

text \<open>
  What the script does when the browser runs it. The browser, as far as the script
  touches it: the media queries and whether each matches, the class of the root element,
  and the content of the \<^verbatim>\<open>meta[name="color-scheme"]\<close> element (\<open>None\<close> when the document
  has no such element).
\<close>

record browser =
  matchMedia :: "string \<Rightarrow> bool"
  className :: string
  colorSchemeMeta :: "string option"

text \<open>
  The statements of the function in the script, given the value of \<^verbatim>\<open>savedTheme\<close>: the
  browser afterwards, and the media queries that were evaluated, in order.
\<close>

definition themeScript_body :: "jsval \<Rightarrow> browser \<Rightarrow> browser \<times> string list" where
  "themeScript_body savedTheme b =
     (let (resolvedTheme, queries) =
            (if savedTheme = Null
             then (if matchMedia b ''(prefers-color-scheme: light)''
                   then ''light-mode'' else ''dark-mode'',
                   [''(prefers-color-scheme: light)''])
             else (if savedTheme = Str ''light'' then ''light-mode'' else ''dark-mode'', []));
          b1 = b\<lparr>className := resolvedTheme\<rparr>;
          b2 = (case colorSchemeMeta b1 of
                  None \<Rightarrow> b1
                | Some _ \<Rightarrow>
                    b1\<lparr>colorSchemeMeta :=
                         Some (if resolvedTheme = ''light-mode'' then ''light'' else ''dark'')\<rparr>)
      in (b2, queries))"

text \<open>
  The value of the literal that initialises \<^verbatim>\<open>savedTheme\<close>: \<^verbatim>\<open>null\<close>, or a string
  between single quotes with no quote, backslash or line break inside. Any other text
  is not one literal, and the script is then not the program above (\<open>None\<close>).
\<close>

definition plain_char :: "char \<Rightarrow> bool" where
  "plain_char c = (c \<noteq> quote \<and> c \<noteq> CHR 0x5C \<and> c \<noteq> newline \<and> c \<noteq> CHR 0x0D)"

definition read_literal :: "string \<Rightarrow> jsval option" where
  "read_literal s =
     (if s = ''null'' then Some Null
      else case s of
             [] \<Rightarrow> None
           | c # cs \<Rightarrow>
               if c = quote \<and> cs \<noteq> [] \<and> last cs = quote \<and> list_all plain_char (butlast cs)
               then Some (Str (butlast cs)) else None)"

definition run_themeScript :: "jsval \<Rightarrow> browser \<Rightarrow> (browser \<times> string list) option" where
  "run_themeScript t b =
     (case read_literal (savedTheme_literal t) of
        None \<Rightarrow> None
      | Some savedTheme \<Rightarrow> Some (themeScript_body savedTheme b))"

text \<open>
  The element tree that \<^verbatim>\<open>Layout\<close> returns. An attribute is a string, a flag that is
  set, or the \<^verbatim>\<open>__html\<close> text of \<^verbatim>\<open>dangerouslySetInnerHTML\<close>; a node is an element or a
  component of the framework, which renders elsewhere.
\<close>

datatype attr = Text string | Flag | InnerHTML string

datatype node = Element string "(string \<times> attr) list" "node list" | Component string

text \<open>
  \<^verbatim>\<open>Layout\<close>, given the value of \<^verbatim>\<open>process.env.NODE_ENV\<close>, the children and the theme
  property. A property that is not passed is \<^verbatim>\<open>undefined\<close>, and the default \<^verbatim>\<open>theme = null\<close>
  then applies. \<^verbatim>\<open>cond && element\<close> renders nothing when the condition is false.
\<close>

definition initialClass :: "jsval \<Rightarrow> string" where
  "initialClass t =
     (if t = Str ''light'' then ''light-mode'' else if t = Str ''dark'' then ''dark-mode'' else [])"

definition colorScheme :: "jsval \<Rightarrow> string" where
  "colorScheme t =
     (if t = Str ''light'' then ''light'' else if t = Str ''dark'' then ''dark'' else ''dark light'')"

definition Layout :: "jsval \<Rightarrow> node list \<Rightarrow> jsval \<Rightarrow> node" where
  "Layout node_env children theme_prop =
     (let t = (if theme_prop = Undefined then Null else theme_prop) in
      Element ''html''
        [(''lang'', Text ''en''), (''className'', Text (initialClass t)),
         (''suppressHydrationWarning'', Flag)]
        [Element ''head'' []
           ([Element ''meta'' [(''charSet'', Text ''utf-8'')] [],
             Element ''meta''
               [(''name'', Text ''viewport''),
                (''content'', Text ''width=device-width,initial-scale=1'')] [],
             Component ''Meta'',
             Component ''Links'',
             Element ''link'' [(''rel'', Text ''icon''), (''href'', Text ''/favicon.svg'')] [],
             Element ''link''
               [(''rel'', Text ''icon''), (''type'', Text ''image/png''),
                (''href'', Text ''/favicon.png'')] [],
             Element ''meta''
               [(''name'', Text ''viewport''),
                (''content'', Text ''width=device-width, initial-scale=1'')] []]
            @ (if node_env = Str ''production''
               then [Element ''script''
                       [(''defer'', Flag), (''data-domain'', Text ''rfd.shared.oxide.computer''),
                        (''src'', Text ''/js/viewscript.js'')] []]
               else [])
            @ [Element ''meta''
                 [(''name'', Text ''color-scheme''), (''content'', Text (colorScheme t))] [],
               Element ''script'' [(''dangerouslySetInnerHTML'', InnerHTML (themeScript t))] []]),
         Element ''body'' [(''className'', Text ''mb-32'')]
           (children @ [Component ''ScrollRestoration'', Component ''Scripts''])])"

text \<open>
  Reading the rendered shell: the \<^verbatim>\<open>class\<close> of the root element, the contents of the
  \<^verbatim>\<open>color-scheme\<close> meta tags in its head, and the inline scripts in its head.
\<close>

fun attribute :: "node \<Rightarrow> string \<Rightarrow> attr option" where
  "attribute (Element _ as _) name = map_of as name"
| "attribute (Component _) name = None"

fun child_nodes :: "node \<Rightarrow> node list" where
  "child_nodes (Element _ _ ns) = ns"
| "child_nodes (Component _) = []"

fun tag :: "node \<Rightarrow> string option" where
  "tag (Element t _ _) = Some t"
| "tag (Component _) = None"

definition root_class :: "node \<Rightarrow> attr option" where
  "root_class doc = attribute doc ''className''"

definition head_nodes :: "node \<Rightarrow> node list" where
  "head_nodes doc = concat (map child_nodes (filter (\<lambda>n. tag n = Some ''head'') (child_nodes doc)))"

definition color_scheme_metas :: "node \<Rightarrow> attr option list" where
  "color_scheme_metas doc =
     map (\<lambda>n. attribute n ''content'')
       (filter (\<lambda>n. tag n = Some ''meta'' \<and> attribute n ''name'' = Some (Text ''color-scheme''))
          (head_nodes doc))"

definition inline_scripts :: "node \<Rightarrow> string list" where
  "inline_scripts doc =
     concat (map (\<lambda>n. case attribute n ''dangerouslySetInnerHTML'' of
                         Some (InnerHTML h) \<Rightarrow> [h] | _ \<Rightarrow> [])
               (head_nodes doc))"

section \<open>The specification's view of the theme\<close>

text \<open>
  The three values that the specification gives a theme cookie and a system preference,
  and the specification's own account of the toggler: \<open>effective = v ?? p ?? dark\<close>, and
  the new theme is \<open>dark\<close> when the effective theme is \<open>light\<close> and \<open>light\<close> otherwise.
  \<open>theme_of\<close> reads a run-time value as one of the three, where it is one.
\<close>

datatype theme_choice = Light | Dark | Absent

fun theme_value :: "theme_choice \<Rightarrow> jsval" where
  "theme_value Light = Str ''light''"
| "theme_value Dark = Str ''dark''"
| "theme_value Absent = Null"

definition theme_of :: "jsval \<Rightarrow> theme_choice option" where
  "theme_of x =
     (if x = Str ''light'' then Some Light
      else if x = Str ''dark'' then Some Dark
      else if nullish x then Some Absent
      else None)"

fun spec_effective :: "theme_choice \<Rightarrow> theme_choice \<Rightarrow> theme_choice" where
  "spec_effective Absent Absent = Dark"
| "spec_effective Absent p = p"
| "spec_effective v p = v"

definition spec_toggle :: "theme_choice \<Rightarrow> theme_choice \<Rightarrow> theme_choice" where
  "spec_toggle v p = (if spec_effective v p = Light then Dark else Light)"

text \<open>
  A request \<open>r'\<close> reads the cookie that the response to \<open>r\<close> wrote: the action gave a
  response to \<open>r\<close>, and the theme cookie parses, on \<open>r'\<close>, to the value that the action
  serialised on \<open>r\<close>.
\<close>

definition reads_cookie_of :: "cookie \<Rightarrow> request \<Rightarrow> request \<Rightarrow> bool" where
  "reads_cookie_of c r' r =
     (case formData r of
        Inl e \<Rightarrow> False
      | Inr fd \<Rightarrow> parse c (get_Headers (headers r') ''Cookie'') = newTheme c r fd)"

section \<open>Sample collaborators and requests\<close>

text \<open>
  Concrete cookies, services and requests on which the definitions above are evaluated.
  The sample theme cookie is written as \<^verbatim>\<open>theme=\<close> and the value, and parses to whatever
  string follows \<^verbatim>\<open>theme=\<close>, with no check of that string.
\<close>

definition sample_themeCookie :: cookie where
  "sample_themeCookie =
     \<lparr>parse = (\<lambda>h. case h of
                      None \<Rightarrow> Null
                    | Some s \<Rightarrow> if take 6 s = ''theme='' then Str (drop 6 s) else Null),
      serialize = (\<lambda>v. ''theme='' @ toString v)\<rparr>"

definition sample_inlineCommentsCookie :: cookie where
  "sample_inlineCommentsCookie =
     \<lparr>parse = (\<lambda>h. if h = Some ''inlineComments=false'' then Bool False else Null),
      serialize = (\<lambda>v. ''inlineComments='' @ toString v)\<rparr>"

definition sample_form :: "string option \<Rightarrow> FormData" where
  "sample_form preference =
     (case preference of None \<Rightarrow> Map.empty | Some p \<Rightarrow> [''systemPreference'' \<mapsto> Str p])"

definition sample_request :: "string option \<Rightarrow> string option \<Rightarrow> request" where
  "sample_request cookie_header preference =
     \<lparr>headers = (case cookie_header of None \<Rightarrow> [] | Some h \<Rightarrow> [(''Cookie'', h)]),
      formData = Inr (sample_form preference)\<rparr>"

text \<open>A request whose body is not a form: \<^verbatim>\<open>request.formData()\<close> rejects on it.\<close>

definition sample_request_without_form :: "string option \<Rightarrow> request" where
  "sample_request_without_form cookie_header =
     \<lparr>headers = (case cookie_header of None \<Rightarrow> [] | Some h \<Rightarrow> [(''Cookie'', h)]),
      formData = Inl TypeError\<rparr>"

text \<open>
  Sample services: the user is authenticated, the fetch of the documents throws the
  unauthenticated error, and \<^verbatim>\<open>logout\<close> throws its redirect. Variants are record updates.
\<close>

definition sample_services :: "(string, nat, string, string) services" where
  "sample_services =
     \<lparr>themeCookie = sample_themeCookie,
      inlineCommentsCookie = sample_inlineCommentsCookie,
      authenticate = (\<lambda>r. Inr ''ada''),
      logout = (\<lambda>r target. Inl (Redirect target)),
      isLocalMode = False,
      fetchRfds = (\<lambda>u. Inl Unauthenticated),
      getAuthors = (\<lambda>rs. Inr (map (\<lambda>n. ''author'') rs)),
      getLabels = (\<lambda>rs. Inr []),
      provideNewRfdNumber = (\<lambda>rs. Inr (Some (int (length rs) + 1)))\<rparr>"

definition sample_browser :: browser where
  "sample_browser =
     \<lparr>matchMedia = (\<lambda>q. q = ''(prefers-color-scheme: light)''), className = [],
      colorSchemeMeta = Some ''dark light''\<rparr>"

section \<open>Helper lemmas\<close>

lemma action_resolved:
  "formData r = Inr fd \<Longrightarrow>
     action c r =
       Inr \<lparr>body = Null,
            init_headers = [(''Cache-Control'', ''no-cache''),
                            (''Set-Cookie'', serialize c (newTheme c r fd))]\<rparr>"
  by (simp add: action_def data_def new_Headers_def append_Headers_def)

lemma action_rejected: "formData r = Inl e \<Longrightarrow> action c r = Inl e"
  by (simp add: action_def)

lemma get_Headers_two:
  "get_Headers [(''Cache-Control'', a), (''Set-Cookie'', b)] ''Cache-Control'' = Some a"
  "get_Headers [(''Cache-Control'', a), (''Set-Cookie'', b)] ''Set-Cookie'' = Some b"
  by (simp_all add: get_Headers_def)

lemma theme_of_cases:
  "theme_of x = Some Light \<longleftrightarrow> x = Str ''light''"
  "theme_of x = Some Dark \<longleftrightarrow> x = Str ''dark''"
  "theme_of x = Some Absent \<longleftrightarrow> nullish x"
  by (cases x; simp add: theme_of_def)+

lemma nullish_iff: "nullish x \<longleftrightarrow> x = Null \<or> x = Undefined"
  by (cases x) simp_all

lemma newTheme_cases: "newTheme c r fd = Str ''light'' \<or> newTheme c r fd = Str ''dark''"
  by (simp add: newTheme_def)


lemma sample_parse_Some:
  "parse sample_themeCookie (get_Headers (headers (sample_request (Some h) p)) ''Cookie'') =
     (if take 6 h = ''theme='' then Str (drop 6 h) else Null)"
  by (simp add: sample_themeCookie_def sample_request_def get_Headers_def)

lemma sample_parse_None:
  "parse sample_themeCookie (get_Headers (headers (sample_request None p)) ''Cookie'') = Null"
  by (simp add: sample_themeCookie_def sample_request_def get_Headers_def)

lemma sample_formData:
  "formData (sample_request h p) = Inr (sample_form p)"
  "formData (sample_request_without_form h) = Inl TypeError"
  by (simp_all add: sample_request_def sample_request_without_form_def)

lemma sample_systemPreference:
  "systemPreference (sample_form None) = Null"
  "systemPreference (sample_form (Some p)) = Str p"
  by (simp_all add: systemPreference_def get_FormData_def sample_form_def)

lemmas sample_toggle_simps =
  sample_parse_Some sample_parse_None sample_formData sample_systemPreference
  effectiveTheme_def currentTheme_def newTheme_def coalesce_def

lemma loader_authenticate_throws:
  "authenticate s r = Inl e \<Longrightarrow> loader s r = ([], Inl e)"
  by (simp add: loader_def)

lemma loader_success:
  "authenticate s r = Inr u \<Longrightarrow>
   try_block s (loader_theme s r) (loader_inlineComments s r) u = Inr d \<Longrightarrow>
   loader s r = ([], Inr d)"
  by (simp add: loader_def)

lemma loader_fallback:
  "authenticate s r = Inr u \<Longrightarrow>
   try_block s (loader_theme s r) (loader_inlineComments s r) u = Inl e \<Longrightarrow>
   loader s r =
     ([CallLogout r ''/''],
      case logout s r ''/'' of
        Inl t \<Rightarrow> Inl t
      | Inr _ \<Rightarrow>
          Inr \<lparr>theme = loader_theme s r, inlineComments = loader_inlineComments s r,
               user = u, rfds = [], authors = [], labels = [],
               localMode = isLocalMode s, newRfdNumber = None\<rparr>)"
  by (simp add: loader_def split: sum.splits)

lemma try_block_frame:
  "try_block s th ic u = Inr d \<Longrightarrow>
     theme d = th \<and> inlineComments d = ic \<and> user d = u \<and> localMode d = isLocalMode s"
  by (auto simp: try_block_def Let_def split: sum.splits if_splits)

lemma try_block_fetch_throws:
  "fetchRfds s u = Inl e \<Longrightarrow> try_block s th ic u = Inl e"
  by (simp add: try_block_def)

lemma sample_loader_prefs:
  "loader_theme (s\<lparr>logout := lo\<rparr>) r = loader_theme s r"
  "loader_inlineComments (s\<lparr>logout := lo\<rparr>) r = loader_inlineComments s r"
  "loader_theme sample_services (sample_request None p) = Null"
  "loader_inlineComments sample_services (sample_request None p) = Bool True"
  by (simp_all add: loader_theme_def loader_inlineComments_def sample_services_def
      sample_themeCookie_def sample_inlineCommentsCookie_def sample_request_def
      get_Headers_def coalesce_def)

lemma head_nodes_Layout:
  "head_nodes (Layout e ch t) =
     [Element ''meta'' [(''charSet'', Text ''utf-8'')] [],
      Element ''meta''
        [(''name'', Text ''viewport''),
         (''content'', Text ''width=device-width,initial-scale=1'')] [],
      Component ''Meta'',
      Component ''Links'',
      Element ''link'' [(''rel'', Text ''icon''), (''href'', Text ''/favicon.svg'')] [],
      Element ''link''
        [(''rel'', Text ''icon''), (''type'', Text ''image/png''),
         (''href'', Text ''/favicon.png'')] [],
      Element ''meta''
        [(''name'', Text ''viewport''),
         (''content'', Text ''width=device-width, initial-scale=1'')] []]
     @ (if e = Str ''production''
        then [Element ''script''
                [(''defer'', Flag), (''data-domain'', Text ''rfd.shared.oxide.computer''),
                 (''src'', Text ''/js/viewscript.js'')] []]
        else [])
     @ [Element ''meta''
          [(''name'', Text ''color-scheme''),
           (''content'', Text (colorScheme (if t = Undefined then Null else t)))] [],
        Element ''script''
          [(''dangerouslySetInnerHTML'',
            InnerHTML (themeScript (if t = Undefined then Null else t)))] []]"
  by (simp add: head_nodes_def Layout_def Let_def)

lemma root_class_Layout:
  "root_class (Layout e ch t) = Some (Text (initialClass (if t = Undefined then Null else t)))"
  by (simp add: root_class_def Layout_def Let_def)

lemma color_scheme_metas_Layout:
  "color_scheme_metas (Layout e ch t) =
     [Some (Text (colorScheme (if t = Undefined then Null else t)))]"
  by (simp add: color_scheme_metas_def head_nodes_Layout)

lemma inline_scripts_Layout:
  "inline_scripts (Layout e ch t) = [themeScript (if t = Undefined then Null else t)]"
  by (simp add: inline_scripts_def head_nodes_Layout)

lemma read_literal_null: "read_literal (savedTheme_literal Null) = Some Null"
  by (simp add: read_literal_def savedTheme_literal_def)

lemma read_literal_light: "read_literal (savedTheme_literal (Str ''light'')) = Some (Str ''light'')"
  by (simp add: read_literal_def savedTheme_literal_def quote_def newline_def plain_char_def)

lemma read_literal_dark: "read_literal (savedTheme_literal (Str ''dark'')) = Some (Str ''dark'')"
  by (simp add: read_literal_def savedTheme_literal_def quote_def newline_def plain_char_def)

section \<open>The toggle action: theorems\<close>

text \<open>
  Claim C1. For every theme cookie value \<open>v\<close> and every submitted \<open>systemPreference\<close> \<open>p\<close>,
  each one of light, dark or absent, the action computes the effective theme
  \<open>v ?? p ?? dark\<close> of the specification and answers with the two headers, the cookie
  header carrying dark when the effective theme is light and light otherwise.
\<close>

theorem toggle_follows_spec:
  assumes "theme_of (parse c (get_Headers (headers r) ''Cookie'')) = Some v"
    and "formData r = Inr fd"
    and "theme_of (systemPreference fd) = Some p"
  shows "effectiveTheme c r fd = theme_value (spec_effective v p)
    \<and> newTheme c r fd = theme_value (spec_toggle v p)
    \<and> action c r =
        Inr \<lparr>body = Null,
             init_headers = [(''Cache-Control'', ''no-cache''),
                             (''Set-Cookie'', serialize c (theme_value (spec_toggle v p)))]\<rparr>"
proof -
  have eff: "effectiveTheme c r fd = theme_value (spec_effective v p)"
    using assms(1,3)
    by (cases v; cases p)
      (auto simp: theme_of_cases nullish_iff effectiveTheme_def currentTheme_def coalesce_def)
  have new: "newTheme c r fd = theme_value (spec_toggle v p)"
    unfolding newTheme_def eff spec_toggle_def
    by (cases "spec_effective v p") simp_all
  show ?thesis
    using eff new action_resolved [OF assms(2), of c] by simp
qed

theorem toggle_follows_spec_witness:
  "theme_of (parse sample_themeCookie
       (get_Headers (headers (sample_request None (Some ''light''))) ''Cookie'')) = Some Absent
   \<and> formData (sample_request None (Some ''light'')) = Inr (sample_form (Some ''light''))
   \<and> theme_of (systemPreference (sample_form (Some ''light''))) = Some Light
   \<and> effectiveTheme sample_themeCookie (sample_request None (Some ''light''))
        (sample_form (Some ''light'')) = Str ''light''
   \<and> action sample_themeCookie (sample_request None (Some ''light'')) =
        Inr \<lparr>body = Null,
             init_headers = [(''Cache-Control'', ''no-cache''), (''Set-Cookie'', ''theme=dark'')]\<rparr>"
proof -
  have a: "theme_of (parse sample_themeCookie
       (get_Headers (headers (sample_request None (Some ''light''))) ''Cookie'')) = Some Absent"
    by (simp add: sample_parse_None theme_of_def)
  have f: "formData (sample_request None (Some ''light'')) = Inr (sample_form (Some ''light''))"
    by (simp add: sample_formData)
  have b: "theme_of (systemPreference (sample_form (Some ''light''))) = Some Light"
    by (simp add: sample_systemPreference theme_of_def)
  show ?thesis
    using a f b toggle_follows_spec [OF a f b]
    by (simp add: spec_toggle_def sample_themeCookie_def)
qed



text \<open>
  Claim C5, as stated: a theme cookie value that is present but is neither light nor
  dark is treated as absent, and the action has no other error path. Neither holds.
  With the cookie value \<open>blue\<close> and the system preference light the action writes light,
  and with no cookie and the same preference it writes dark. And on a request whose
  body is not a form, whatever its cookie, the action throws the \<^verbatim>\<open>TypeError\<close> of
  \<^verbatim>\<open>request.formData()\<close>.
\<close>

theorem malformed_cookie_not_absent_counterexample:
  "parse sample_themeCookie
       (get_Headers (headers (sample_request (Some ''theme=blue'') (Some ''light''))) ''Cookie'')
     = Str ''blue''
   \<and> action sample_themeCookie (sample_request (Some ''theme=blue'') (Some ''light'')) =
       Inr \<lparr>body = Null,
            init_headers = [(''Cache-Control'', ''no-cache''), (''Set-Cookie'', ''theme=light'')]\<rparr>
   \<and> action sample_themeCookie (sample_request None (Some ''light'')) =
       Inr \<lparr>body = Null,
            init_headers = [(''Cache-Control'', ''no-cache''), (''Set-Cookie'', ''theme=dark'')]\<rparr>
   \<and> action sample_themeCookie (sample_request_without_form (Some ''theme=light'')) =
       Inl TypeError"
proof -
  have b: "action sample_themeCookie (sample_request (Some ''theme=blue'') (Some ''light'')) =
       Inr \<lparr>body = Null,
            init_headers = [(''Cache-Control'', ''no-cache''), (''Set-Cookie'', ''theme=light'')]\<rparr>"
    using action_resolved [of "sample_request (Some ''theme=blue'') (Some ''light'')"
        "sample_form (Some ''light'')" sample_themeCookie]
    by (simp add: sample_toggle_simps) (simp add: sample_themeCookie_def)
  have n: "action sample_themeCookie (sample_request None (Some ''light'')) =
       Inr \<lparr>body = Null,
            init_headers = [(''Cache-Control'', ''no-cache''), (''Set-Cookie'', ''theme=dark'')]\<rparr>"
    using action_resolved [of "sample_request None (Some ''light'')"
        "sample_form (Some ''light'')" sample_themeCookie]
    by (simp add: sample_toggle_simps) (simp add: sample_themeCookie_def)
  have t: "action sample_themeCookie (sample_request_without_form (Some ''theme=light'')) =
       Inl TypeError"
    by (simp add: action_rejected sample_formData)
  show ?thesis
    using b n t by (simp add: sample_parse_Some)
qed

text \<open>
  Claim C5, amended. A parsed theme cookie value that is \<^verbatim>\<open>null\<close> or \<^verbatim>\<open>undefined\<close> is
  absent: the effective theme is the system preference, and dark when that is absent
  too. Every other parsed value, light, dark or not, is the effective theme itself, the
  system preference is not consulted, and the action writes dark when the value is light
  and light otherwise. The action has one error path: when \<^verbatim>\<open>request.formData()\<close>
  rejects, the action throws what it rejected with and gives no response; on every other
  request it gives its response with the new theme.
\<close>

theorem cookie_value_used_as_is:
  "(nullish (parse c (get_Headers (headers r) ''Cookie'')) \<longrightarrow>
      effectiveTheme c r fd = coalesce (systemPreference fd) (Str ''dark''))
   \<and> (\<not> nullish (parse c (get_Headers (headers r) ''Cookie'')) \<longrightarrow>
      effectiveTheme c r fd = parse c (get_Headers (headers r) ''Cookie'')
      \<and> newTheme c r fd =
          (if parse c (get_Headers (headers r) ''Cookie'') = Str ''light''
           then Str ''dark'' else Str ''light''))
   \<and> (case formData r of
         Inl e \<Rightarrow> action c r = Inl e
       | Inr fd' \<Rightarrow>
           action c r =
             Inr \<lparr>body = Null,
                  init_headers = [(''Cache-Control'', ''no-cache''),
                                  (''Set-Cookie'', serialize c (newTheme c r fd'))]\<rparr>)"
proof -
  have paths: "case formData r of
         Inl e \<Rightarrow> action c r = Inl e
       | Inr fd' \<Rightarrow>
           action c r =
             Inr \<lparr>body = Null,
                  init_headers = [(''Cache-Control'', ''no-cache''),
                                  (''Set-Cookie'', serialize c (newTheme c r fd'))]\<rparr>"
    by (cases "formData r") (simp_all add: action_rejected action_resolved)
  then show ?thesis
    by (simp add: effectiveTheme_def currentTheme_def newTheme_def coalesce_def)
qed

theorem cookie_value_used_as_is_witness:
  "nullish (parse sample_themeCookie
       (get_Headers (headers (sample_request None (Some ''light''))) ''Cookie''))
   \<and> effectiveTheme sample_themeCookie (sample_request None (Some ''light''))
        (sample_form (Some ''light'')) = Str ''light''
   \<and> \<not> nullish (parse sample_themeCookie
       (get_Headers (headers (sample_request (Some ''theme=blue'') (Some ''light''))) ''Cookie''))
   \<and> effectiveTheme sample_themeCookie (sample_request (Some ''theme=blue'') (Some ''light''))
        (sample_form (Some ''light'')) = Str ''blue''
   \<and> newTheme sample_themeCookie (sample_request (Some ''theme=blue'') (Some ''light''))
        (sample_form (Some ''light'')) = Str ''light''
   \<and> action sample_themeCookie (sample_request_without_form None) = Inl TypeError"
proof -
  let ?r0 = "sample_request None (Some ''light'')"
  let ?rb = "sample_request (Some ''theme=blue'') (Some ''light'')"
  let ?rt = "sample_request_without_form None"
  let ?fd = "sample_form (Some ''light'')"
  have n0: "nullish (parse sample_themeCookie (get_Headers (headers ?r0) ''Cookie''))"
    by (simp add: sample_parse_None)
  have nb: "\<not> nullish (parse sample_themeCookie (get_Headers (headers ?rb) ''Cookie''))"
    by (simp add: sample_parse_Some)
  have pb: "parse sample_themeCookie (get_Headers (headers ?rb) ''Cookie'') = Str ''blue''"
    by (simp add: sample_parse_Some)
  have ft: "formData ?rt = Inl TypeError"
    by (simp add: sample_formData)
  show ?thesis
    using n0 nb pb ft
      cookie_value_used_as_is [of sample_themeCookie ?r0 ?fd]
      cookie_value_used_as_is [of sample_themeCookie ?rb ?fd]
      cookie_value_used_as_is [of sample_themeCookie ?rt ?fd]
    by (simp add: sample_systemPreference coalesce_def)
qed

text \<open>
  Claim C6, as stated: for every request the action gives a response with no body and
  the two headers. On a request whose body is not a form, \<^verbatim>\<open>request.formData()\<close> rejects
  and the action throws: there is no response and no header.
\<close>

theorem no_response_without_form_counterexample:
  "formData (sample_request_without_form None) = Inl TypeError
   \<and> action sample_themeCookie (sample_request_without_form None) = Inl TypeError"
  by (simp add: action_rejected sample_formData)

text \<open>
  Claim C6, amended. For every request on which \<^verbatim>\<open>request.formData()\<close> resolves, the
  action gives a response that has no body, one \<^verbatim>\<open>Cache-Control\<close> header with the value
  \<^verbatim>\<open>no-cache\<close>, one \<^verbatim>\<open>Set-Cookie\<close> header with the serialised new theme, and no other
  header. On every request on which it rejects, the action throws what it rejected with
  and gives no response.
\<close>

theorem action_response_shape:
  "case formData r of
     Inl e \<Rightarrow> action c r = Inl e
   | Inr fd \<Rightarrow>
       (case action c r of
          Inl e \<Rightarrow> False
        | Inr resp \<Rightarrow>
            body resp = Null
            \<and> get_Headers (init_headers resp) ''Cache-Control'' = Some ''no-cache''
            \<and> get_Headers (init_headers resp) ''Set-Cookie'' =
                Some (serialize c (newTheme c r fd))
            \<and> map fst (init_headers resp) = [''Cache-Control'', ''Set-Cookie''])"
proof (cases "formData r")
  case (Inl e)
  then show ?thesis by (simp add: action_rejected)
next
  case (Inr fd)
  then show ?thesis by (simp add: action_resolved get_Headers_two)
qed

theorem action_response_shape_witness:
  "formData (sample_request (Some ''theme=light'') None) = Inr (sample_form None)
   \<and> (case action sample_themeCookie (sample_request (Some ''theme=light'') None) of
         Inl e \<Rightarrow> False
       | Inr resp \<Rightarrow>
           body resp = Null
           \<and> get_Headers (init_headers resp) ''Cache-Control'' = Some ''no-cache''
           \<and> get_Headers (init_headers resp) ''Set-Cookie'' = Some ''theme=dark''
           \<and> map fst (init_headers resp) = [''Cache-Control'', ''Set-Cookie''])"
proof -
  let ?r = "sample_request (Some ''theme=light'') None"
  have f: "formData ?r = Inr (sample_form None)"
    by (simp add: sample_formData)
  have n: "serialize sample_themeCookie (newTheme sample_themeCookie ?r (sample_form None)) =
      ''theme=dark''"
    by (simp add: sample_toggle_simps) (simp add: sample_themeCookie_def)
  have act: "action sample_themeCookie ?r =
      Inr \<lparr>body = Null,
           init_headers = [(''Cache-Control'', ''no-cache''), (''Set-Cookie'', ''theme=dark'')]\<rparr>"
    using action_resolved [OF f, of sample_themeCookie] by (simp only: n)
  show ?thesis
    using f action_response_shape [where r = ?r and c = sample_themeCookie]
    by (simp add: act n)
qed

text \<open>
  Claim C9. For every request, the value that the action serialises into the
  \<^verbatim>\<open>Set-Cookie\<close> header is the string light or the string dark, never \<^verbatim>\<open>null\<close> or
  \<^verbatim>\<open>undefined\<close>, and where the action throws it serialises nothing; a request that reads
  this cookie has a current theme that is not \<^verbatim>\<open>null\<close>, so the action never brings back
  the state that follows the system.
\<close>

theorem written_theme_never_absent:
  "(newTheme c r fd = Str ''light'' \<or> newTheme c r fd = Str ''dark'')
   \<and> \<not> nullish (newTheme c r fd)
   \<and> (case formData r of
         Inl e \<Rightarrow> action c r = Inl e
       | Inr fd' \<Rightarrow>
           (case action c r of
              Inl e \<Rightarrow> False
            | Inr resp \<Rightarrow>
                get_Headers (init_headers resp) ''Set-Cookie'' =
                  Some (serialize c (newTheme c r fd'))))
   \<and> (reads_cookie_of c r' r \<longrightarrow>
        currentTheme c r' \<noteq> Null
        \<and> (formData r = Inr fd \<longrightarrow> currentTheme c r' = newTheme c r fd))"
proof -
  have n: "newTheme c r fd = Str ''light'' \<or> newTheme c r fd = Str ''dark''"
    by (rule newTheme_cases)
  then have nn: "\<not> nullish (newTheme c r fd)" by auto
  have w: "case formData r of
         Inl e \<Rightarrow> action c r = Inl e
       | Inr fd' \<Rightarrow>
           (case action c r of
              Inl e \<Rightarrow> False
            | Inr resp \<Rightarrow>
                get_Headers (init_headers resp) ''Set-Cookie'' =
                  Some (serialize c (newTheme c r fd')))"
    by (cases "formData r") (simp_all add: action_rejected action_resolved get_Headers_two)
  have rd: "reads_cookie_of c r' r \<longrightarrow>
        currentTheme c r' \<noteq> Null
        \<and> (formData r = Inr fd \<longrightarrow> currentTheme c r' = newTheme c r fd)"
  proof (cases "formData r")
    case (Inl e)
    then show ?thesis by (simp add: reads_cookie_of_def)
  next
    case (Inr fd')
    have "newTheme c r fd' = Str ''light'' \<or> newTheme c r fd' = Str ''dark''"
      by (rule newTheme_cases)
    then show ?thesis
      using Inr by (auto simp: reads_cookie_of_def currentTheme_def coalesce_def)
  qed
  from n nn w rd show ?thesis by blast
qed

theorem written_theme_never_absent_witness:
  "reads_cookie_of sample_themeCookie
     (sample_request (Some ''theme=light'') None) (sample_request None None)
   \<and> formData (sample_request None None) = Inr (sample_form None)
   \<and> newTheme sample_themeCookie (sample_request None None) (sample_form None) = Str ''light''
   \<and> currentTheme sample_themeCookie (sample_request (Some ''theme=light'') None) = Str ''light''"
proof -
  have rd: "reads_cookie_of sample_themeCookie
     (sample_request (Some ''theme=light'') None) (sample_request None None)"
    by (simp add: reads_cookie_of_def sample_toggle_simps)
  have f: "formData (sample_request None None) = Inr (sample_form None)"
    by (simp add: sample_formData)
  have nt: "newTheme sample_themeCookie (sample_request None None) (sample_form None) =
      Str ''light''"
    by (simp add: sample_toggle_simps)
  show ?thesis
    using rd f nt
      written_theme_never_absent [of sample_themeCookie "sample_request None None"
        "sample_form None" "sample_request (Some ''theme=light'') None"]
    by simp
qed

section \<open>The loader: theorems\<close>

text \<open>
  Claim C3, as stated: when the fetch stage throws, the loader calls logout and
  answers with the empty document list. With services whose fetch throws the
  unauthenticated error and whose logout throws its redirect, the loader calls logout
  and ends with the thrown redirect, and returns no object.
\<close>

theorem fetch_failure_logout_throws_counterexample:
  "authenticate sample_services (sample_request None None) = Inr ''ada''
   \<and> fetchRfds sample_services ''ada'' = Inl Unauthenticated
   \<and> loader sample_services (sample_request None None) =
       ([CallLogout (sample_request None None) ''/''], Inl (Redirect ''/''))"
proof -
  let ?r = "sample_request None None"
  have a: "authenticate sample_services ?r = Inr ''ada''"
    by (simp add: sample_services_def)
  have f: "fetchRfds sample_services ''ada'' = Inl Unauthenticated"
    by (simp add: sample_services_def)
  have l: "logout sample_services ?r ''/'' = Inl (Redirect ''/'')"
    by (simp add: sample_services_def)
  from loader_fallback [OF a try_block_fetch_throws [OF f]] a f show ?thesis
    by (simp add: l)
qed

text \<open>
  Claim C3, amended. For every request on which authentication returns a user and a
  call of the fetch stage throws, whatever the thrown value, the unauthenticated error
  included: the loader drops that value and calls \<^verbatim>\<open>logout(request, '/')\<close> once. When
  logout returns, the loader returns the object with the empty lists and no new number;
  when logout throws, what it threw is what the loader ends with.
\<close>

theorem fetch_failure_calls_logout:
  assumes "authenticate s r = Inr u"
    and "try_block s (loader_theme s r) (loader_inlineComments s r) u = Inl e"
  shows "fst (loader s r) = [CallLogout r ''/'']
    \<and> snd (loader s r) =
        (case logout s r ''/'' of
           Inl t \<Rightarrow> Inl t
         | Inr _ \<Rightarrow>
             Inr \<lparr>theme = loader_theme s r, inlineComments = loader_inlineComments s r,
                  user = u, rfds = [], authors = [], labels = [],
                  localMode = isLocalMode s, newRfdNumber = None\<rparr>)"
  using loader_fallback [OF assms] by simp

theorem fetch_failure_calls_logout_witness:
  "authenticate (sample_services\<lparr>logout := \<lambda>r t. Inr ()\<rparr>) (sample_request None None) = Inr ''ada''
   \<and> try_block (sample_services\<lparr>logout := \<lambda>r t. Inr ()\<rparr>) Null (Bool True) ''ada'' =
       Inl Unauthenticated
   \<and> loader (sample_services\<lparr>logout := \<lambda>r t. Inr ()\<rparr>) (sample_request None None) =
       ([CallLogout (sample_request None None) ''/''],
        Inr \<lparr>theme = Null, inlineComments = Bool True, user = ''ada'', rfds = [],
             authors = [], labels = [], localMode = False, newRfdNumber = None\<rparr>)"
proof -
  let ?s = "sample_services\<lparr>logout := \<lambda>r t. Inr ()\<rparr>"
  let ?r = "sample_request None None"
  have a: "authenticate ?s ?r = Inr ''ada''"
    by (simp add: sample_services_def)
  have t: "try_block ?s (loader_theme ?s ?r) (loader_inlineComments ?s ?r) ''ada'' =
      Inl Unauthenticated"
    by (simp add: try_block_def sample_services_def)
  have l: "isLocalMode ?s = False" "logout ?s ?r ''/'' = Inr ()"
    by (simp_all add: sample_services_def)
  show ?thesis
    using a t l fetch_failure_calls_logout [OF a t]
    by (simp add: sample_loader_prefs prod_eq_iff)
qed

text \<open>
  Claim C7. For every request whose inlineComments cookie is absent, that is, parses
  to \<^verbatim>\<open>null\<close> or \<^verbatim>\<open>undefined\<close>, every object that the loader returns has
  \<open>inlineComments = true\<close>; and the loader returns an object unless authentication or
  logout threw.
\<close>

theorem inlineComments_default_true:
  assumes "nullish (parse (inlineCommentsCookie s) (get_Headers (headers r) ''Cookie''))"
  shows "case snd (loader s r) of
           Inr d \<Rightarrow> inlineComments d = Bool True
         | Inl e \<Rightarrow> authenticate s r = Inl e \<or> logout s r ''/'' = Inl e"
proof -
  have ic: "loader_inlineComments s r = Bool True"
    using assms by (simp add: loader_inlineComments_def coalesce_def)
  show ?thesis
  proof (cases "authenticate s r")
    case (Inl e)
    then show ?thesis by (simp add: loader_authenticate_throws)
  next
    case (Inr u)
    show ?thesis
    proof (cases "try_block s (loader_theme s r) (loader_inlineComments s r) u")
      case (Inl e)
      from loader_fallback [OF Inr Inl] show ?thesis
        by (simp add: ic split: sum.splits)
    next
      case inner: (Inr d)
      from try_block_frame [OF inner] loader_success [OF Inr inner] show ?thesis
        by (simp add: ic)
    qed
  qed
qed

theorem inlineComments_default_true_witness:
  "nullish (parse (inlineCommentsCookie (sample_services\<lparr>fetchRfds := \<lambda>u. Inr (Some [7, 12])\<rparr>))
       (get_Headers (headers (sample_request (Some ''theme=dark'') None)) ''Cookie''))
   \<and> snd (loader (sample_services\<lparr>fetchRfds := \<lambda>u. Inr (Some [7, 12])\<rparr>)
          (sample_request (Some ''theme=dark'') None)) =
       Inr \<lparr>theme = Str ''dark'', inlineComments = Bool True, user = ''ada'', rfds = [7, 12],
            authors = [''author'', ''author''], labels = [], localMode = False,
            newRfdNumber = Some 3\<rparr>"
proof -
  let ?s = "sample_services\<lparr>fetchRfds := \<lambda>u. Inr (Some [7, 12])\<rparr>"
  let ?r = "sample_request (Some ''theme=dark'') None"
  have n: "nullish (parse (inlineCommentsCookie ?s) (get_Headers (headers ?r) ''Cookie''))"
    by (simp add: sample_services_def sample_inlineCommentsCookie_def sample_request_def
        get_Headers_def)
  have l: "snd (loader ?s ?r) =
       Inr \<lparr>theme = Str ''dark'', inlineComments = loader_inlineComments ?s ?r, user = ''ada'',
            rfds = [7, 12], authors = [''author'', ''author''], labels = [], localMode = False,
            newRfdNumber = Some 3\<rparr>"
    by (simp add: loader_def try_block_def truthy_array_def sample_services_def
        loader_theme_def sample_themeCookie_def sample_request_def get_Headers_def coalesce_def)
  show ?thesis
    using n inlineComments_default_true [OF n]
    by (simp add: l)
qed

text \<open>
  Claim C10. For every request, served once by services whose fetch stage succeeds
  and once by services that differ from them only in the fetch stage and in logout,
  so that the fallback is taken: the object of the fallback return has the theme, the
  inlineComments flag, the user and the localMode flag of the object of the return in
  the try block, and its rfds, authors and labels are empty and its newRfdNumber is
  undefined.
\<close>

theorem fallback_keeps_frame:
  assumes "themeCookie s' = themeCookie s"
    and "inlineCommentsCookie s' = inlineCommentsCookie s"
    and "authenticate s' = authenticate s"
    and "isLocalMode s' = isLocalMode s"
    and "loader s r = ([], Inr d)"
    and "loader s' r = ([CallLogout r ''/''], Inr d')"
  shows "theme d' = theme d \<and> inlineComments d' = inlineComments d \<and> user d' = user d
    \<and> localMode d' = localMode d
    \<and> rfds d' = [] \<and> authors d' = [] \<and> labels d' = [] \<and> newRfdNumber d' = None"
proof -
  have th: "loader_theme s' r = loader_theme s r"
    using assms(1) by (simp add: loader_theme_def)
  have ic: "loader_inlineComments s' r = loader_inlineComments s r"
    using assms(2) by (simp add: loader_inlineComments_def)
  obtain u where u: "authenticate s r = Inr u"
    using assms(5) by (cases "authenticate s r") (simp_all add: loader_authenticate_throws)
  have u': "authenticate s' r = Inr u"
    using u assms(3) by simp
  have ok: "try_block s (loader_theme s r) (loader_inlineComments s r) u = Inr d"
  proof (cases "try_block s (loader_theme s r) (loader_inlineComments s r) u")
    case (Inl e)
    from loader_fallback [OF u Inl] assms(5) show ?thesis by simp
  next
    case (Inr x)
    from loader_success [OF u Inr] assms(5) show ?thesis by (simp add: Inr)
  qed
  have d: "theme d = loader_theme s r \<and> inlineComments d = loader_inlineComments s r
      \<and> user d = u \<and> localMode d = isLocalMode s"
    using try_block_frame [OF ok] .
  have d': "d' = \<lparr>theme = loader_theme s' r, inlineComments = loader_inlineComments s' r,
      user = u, rfds = [], authors = [], labels = [], localMode = isLocalMode s',
      newRfdNumber = None\<rparr>"
  proof (cases "try_block s' (loader_theme s' r) (loader_inlineComments s' r) u")
    case (Inl e)
    from loader_fallback [OF u' Inl] assms(6) show ?thesis
      by (simp split: sum.splits)
  next
    case (Inr x)
    from loader_success [OF u' Inr] assms(6) show ?thesis by simp
  qed
  show ?thesis
    using d by (simp add: d' th ic assms(4))
qed

theorem fallback_keeps_frame_witness:
  "loader (sample_services\<lparr>fetchRfds := \<lambda>u. Inr (Some [7, 12])\<rparr>)
       (sample_request (Some ''theme=dark'') None) =
     ([], Inr \<lparr>theme = Str ''dark'', inlineComments = Bool True, user = ''ada'',
               rfds = [7, 12], authors = [''author'', ''author''], labels = [],
               localMode = False, newRfdNumber = Some 3\<rparr>)
   \<and> loader (sample_services\<lparr>logout := \<lambda>r t. Inr ()\<rparr>)
       (sample_request (Some ''theme=dark'') None) =
     ([CallLogout (sample_request (Some ''theme=dark'') None) ''/''],
      Inr \<lparr>theme = Str ''dark'', inlineComments = Bool True, user = ''ada'',
           rfds = [], authors = [], labels = [], localMode = False, newRfdNumber = None\<rparr>)"
proof -
  let ?s = "sample_services\<lparr>fetchRfds := \<lambda>u. Inr (Some [7, 12])\<rparr>"
  let ?s' = "sample_services\<lparr>logout := \<lambda>r t. Inr ()\<rparr>"
  let ?r = "sample_request (Some ''theme=dark'') None"
  let ?d = "\<lparr>theme = Str ''dark'', inlineComments = Bool True, user = ''ada'',
               rfds = [7, 12], authors = [''author'', ''author''], labels = [],
               localMode = False, newRfdNumber = Some 3\<rparr>"
  let ?d' = "\<lparr>theme = Str ''dark'', inlineComments = Bool True, user = ''ada'',
           rfds = [] :: nat list, authors = [] :: string list, labels = [] :: string list,
           localMode = False, newRfdNumber = None\<rparr>"
  have prefs: "loader_theme ?s ?r = Str ''dark''" "loader_inlineComments ?s ?r = Bool True"
    "loader_theme ?s' ?r = Str ''dark''" "loader_inlineComments ?s' ?r = Bool True"
    by (simp_all add: loader_theme_def loader_inlineComments_def sample_services_def
        sample_themeCookie_def sample_inlineCommentsCookie_def sample_request_def
        get_Headers_def coalesce_def)
  have a: "authenticate ?s ?r = Inr ''ada''" "authenticate ?s' ?r = Inr ''ada''"
    by (simp_all add: sample_services_def)
  have t: "try_block ?s (Str ''dark'') (Bool True) ''ada'' = Inr ?d"
    by (simp add: try_block_def truthy_array_def sample_services_def)
  have t': "try_block ?s' (Str ''dark'') (Bool True) ''ada'' = Inl Unauthenticated"
    by (simp add: try_block_def sample_services_def)
  have tp: "try_block ?s (loader_theme ?s ?r) (loader_inlineComments ?s ?r) ''ada'' = Inr ?d"
    by (simp only: prefs t)
  have l: "loader ?s ?r = ([], Inr ?d)"
    using loader_success [OF a(1) tp] .
  have t'p: "try_block ?s' (loader_theme ?s' ?r) (loader_inlineComments ?s' ?r) ''ada'' =
      Inl Unauthenticated"
    by (simp only: prefs t')
  have lo: "logout ?s' ?r ''/'' = Inr ()" "isLocalMode ?s' = False"
    by (simp_all add: sample_services_def)
  have l': "loader ?s' ?r = ([CallLogout ?r ''/''], Inr ?d')"
    using loader_fallback [OF a(2) t'p] by (simp only: prefs lo sum.case)
  have e: "themeCookie ?s' = themeCookie ?s" "inlineCommentsCookie ?s' = inlineCommentsCookie ?s"
    "authenticate ?s' = authenticate ?s" "isLocalMode ?s' = isLocalMode ?s"
    by simp_all
  show ?thesis
    using l l' fallback_keeps_frame [OF e l l']
    by simp
qed

section \<open>The page shell and the theme script: theorems\<close>

text \<open>
  Claim C4. Whatever the children and the environment, the class of the root element
  and the one \<^verbatim>\<open>color-scheme\<close> meta tag of the shell follow the theme: light gives the
  class \<^verbatim>\<open>light-mode\<close> and the content \<^verbatim>\<open>light\<close>, dark gives \<^verbatim>\<open>dark-mode\<close> and \<^verbatim>\<open>dark\<close>,
  and an absent theme, \<^verbatim>\<open>null\<close> or a property that is not passed, gives the empty class
  and the content \<^verbatim>\<open>dark light\<close>.
\<close>

theorem shell_encodes_theme:
  "root_class (Layout e ch (Str ''light'')) = Some (Text ''light-mode'')
   \<and> color_scheme_metas (Layout e ch (Str ''light'')) = [Some (Text ''light'')]
   \<and> root_class (Layout e ch (Str ''dark'')) = Some (Text ''dark-mode'')
   \<and> color_scheme_metas (Layout e ch (Str ''dark'')) = [Some (Text ''dark'')]
   \<and> root_class (Layout e ch Null) = Some (Text [])
   \<and> color_scheme_metas (Layout e ch Null) = [Some (Text ''dark light'')]
   \<and> root_class (Layout e ch Undefined) = Some (Text [])
   \<and> color_scheme_metas (Layout e ch Undefined) = [Some (Text ''dark light'')]"
  by (simp add: root_class_Layout color_scheme_metas_Layout initialClass_def colorScheme_def)

text \<open>
  Claim C8. The shell inlines the theme script of its theme. Run in any browser, the
  script of the theme light or dark evaluates no media query and sets the class from
  the saved theme, \<^verbatim>\<open>light-mode\<close> or \<^verbatim>\<open>dark-mode\<close>; the script of the theme \<^verbatim>\<open>null\<close>
  evaluates the query \<^verbatim>\<open>(prefers-color-scheme: light)\<close>, and only it, and sets the class
  from its answer.
\<close>

theorem script_reads_preference_only_for_null:
  "inline_scripts (Layout e ch t) = [themeScript (if t = Undefined then Null else t)]
   \<and> run_themeScript (Str ''light'') b =
       Some (b\<lparr>className := ''light-mode'',
                colorSchemeMeta := map_option (\<lambda>_. ''light'') (colorSchemeMeta b)\<rparr>, [])
   \<and> run_themeScript (Str ''dark'') b =
       Some (b\<lparr>className := ''dark-mode'',
                colorSchemeMeta := map_option (\<lambda>_. ''dark'') (colorSchemeMeta b)\<rparr>, [])
   \<and> run_themeScript Null b =
       Some (b\<lparr>className :=
                  (if matchMedia b ''(prefers-color-scheme: light)''
                   then ''light-mode'' else ''dark-mode''),
                colorSchemeMeta :=
                  map_option (\<lambda>_. if matchMedia b ''(prefers-color-scheme: light)''
                                    then ''light'' else ''dark'') (colorSchemeMeta b)\<rparr>,
             [''(prefers-color-scheme: light)''])"
proof -
  have l: "run_themeScript (Str ''light'') b =
       Some (b\<lparr>className := ''light-mode'',
                colorSchemeMeta := map_option (\<lambda>_. ''light'') (colorSchemeMeta b)\<rparr>, [])"
    by (cases "colorSchemeMeta b")
      (simp_all add: run_themeScript_def read_literal_light themeScript_body_def)
  have d: "run_themeScript (Str ''dark'') b =
       Some (b\<lparr>className := ''dark-mode'',
                colorSchemeMeta := map_option (\<lambda>_. ''dark'') (colorSchemeMeta b)\<rparr>, [])"
    by (cases "colorSchemeMeta b")
      (simp_all add: run_themeScript_def read_literal_dark themeScript_body_def)
  have n: "run_themeScript Null b =
       Some (b\<lparr>className :=
                  (if matchMedia b ''(prefers-color-scheme: light)''
                   then ''light-mode'' else ''dark-mode''),
                colorSchemeMeta :=
                  map_option (\<lambda>_. if matchMedia b ''(prefers-color-scheme: light)''
                                    then ''light'' else ''dark'') (colorSchemeMeta b)\<rparr>,
             [''(prefers-color-scheme: light)''])"
    by (cases "colorSchemeMeta b")
      (simp_all add: run_themeScript_def read_literal_null themeScript_body_def)
  show ?thesis
    using l d n by (simp add: inline_scripts_Layout)
qed

end
